theory Spec2Isabelle
  imports Complex_Main "HOL-Library.Multiset"
begin

section \<open>Values shared by both dashboards\<close>

text \<open>
  The repository holds two pages. The housing dashboard (map.js with the rent, burden and
  MHA layers, panel.js with the stat counter, legend and reset button, charts.js with the
  bar, line and donut charts) and the burden dashboard (panel.js with the year slider and
  the threshold toggle, charts.js with the trend, race and income charts).

  A JavaScript number is the real it denotes, and every sum and quotient is rounded to
  the nearest double as IEEE 754 does: to 53 significant bits, ties to the even
  significand (\<open>fl\<close>). The exponent range is left open: overflow to \<open>Infinity\<close> (above
  1.8e308) and the subnormal numbers (below 2.2e-308) are not modelled, and the theorems
  on numbers are stated for rents that are whole numbers, where they cannot occur.
  \<open>Math.round\<close> gives the nearest integer, ties towards plus infinity, and is exact.
\<close>

definition round_even :: "real \<Rightarrow> int" where
  "round_even y =
     (let f = \<lfloor>y\<rfloor>; d = y - of_int f
      in if d < 1 / 2 then f else if 1 / 2 < d then f + 1 else if even f then f else f + 1)"

definition fl :: "real \<Rightarrow> real" where
  "fl x =
     (if x = 0 then 0
      else (let u = 2 powr (of_int \<lfloor>log 2 \<bar>x\<bar>\<rfloor> - 52)
            in of_int (round_even (x / u)) * u))"

text \<open>\<open>a + b\<close> and \<open>a / b\<close> on numbers.\<close>

definition js_add :: "real \<Rightarrow> real \<Rightarrow> real" where
  "js_add a b = fl (a + b)"

definition js_div :: "real \<Rightarrow> real \<Rightarrow> real" where
  "js_div a b = fl (a / b)"

definition Math_round :: "real \<Rightarrow> int" where
  "Math_round x = \<lfloor>x + 1 / 2\<rfloor>"

text \<open>The non-ASCII characters of the source's string literals, as their UTF-8 bytes.\<close>

definition EM_DASH :: string where
  "EM_DASH = [CHR 0xE2, CHR 0x80, CHR 0x94]"

definition EN_DASH :: string where
  "EN_DASH = [CHR 0xE2, CHR 0x80, CHR 0x93]"

definition MIDDOT :: string where
  "MIDDOT = [CHR 0xC2, CHR 0xB7]"

text \<open>
  Text written into a DOM node. \<open>Dollars n\<close> is \<open>'$' + n.toLocaleString()\<close>,
  \<open>Percent1 x\<close> is \<open>x.toFixed(1) + '%'\<close> and \<open>Count n t\<close> is \<open>n + t\<close>: the digits
  depend on the browser's locale, so the number is kept and not its rendering.
\<close>

datatype dom_text = Literal string | Dollars int | Percent1 real | Count nat string

datatype error = TypeError | SyntaxError | StyleError | NetworkError

text \<open>
  A handler that may throw gives the state it leaves when it returns (\<open>Inr\<close>), or the
  error together with the state at the throw (\<open>Inl\<close>): what it wrote before it threw
  stays written. Calls in sequence stop at the first throw. \<open>outcome\<close> is the state the
  page is in afterwards, either way.
\<close>

type_synonym 's result = "(error \<times> 's) + 's"

definition and_then :: "'s result \<Rightarrow> ('s \<Rightarrow> 's result) \<Rightarrow> 's result" where
  "and_then r f = (case r of Inl e \<Rightarrow> Inl e | Inr x \<Rightarrow> f x)"

definition outcome :: "'s result \<Rightarrow> 's" where
  "outcome r = (case r of Inl (e, s) \<Rightarrow> s | Inr s \<Rightarrow> s)"

text \<open>
  The objects \<open>LEGEND_CONFIG\<close> and \<open>grouped\<close> are object literals, so a lookup by name
  also finds what they inherit from \<open>Object.prototype\<close>: for these names \<open>obj[name]\<close> is
  a function (for \<open>__proto__\<close> the prototype itself), which is truthy and has none of the
  properties the code goes on to use.
\<close>

definition Object_prototype_names :: "string list" where
  "Object_prototype_names =
     [''constructor'', ''__defineGetter__'', ''__defineSetter__'', ''hasOwnProperty'',
      ''__lookupGetter__'', ''__lookupSetter__'', ''isPrototypeOf'', ''propertyIsEnumerable'',
      ''toString'', ''valueOf'', ''__proto__'', ''toLocaleString'']"

text \<open>
  \<open>Object.entries\<close> lists the own properties whose names are array indices first (a
  decimal numeral without leading zero, at most 4294967294), by ascending index, then the
  other names in the order in which they were created.
\<close>

definition digit_value :: "char \<Rightarrow> nat option" where
  "digit_value c = map_of (zip ''0123456789'' [0, 1, 2, 3, 4, 5, 6, 7, 8, 9]) c"

fun decimal :: "nat \<Rightarrow> string \<Rightarrow> nat option" where
  "decimal acc [] = Some acc"
| "decimal acc (c # cs) =
     (case digit_value c of None \<Rightarrow> None | Some d \<Rightarrow> decimal (10 * acc + d) cs)"

definition array_index :: "string \<Rightarrow> nat option" where
  "array_index name =
     (case name of
        [] \<Rightarrow> None
      | c # cs \<Rightarrow>
          if c = CHR ''0'' \<and> cs \<noteq> [] then None
          else (case decimal 0 name of
                  None \<Rightarrow> None
                | Some i \<Rightarrow> if i \<le> 4294967294 then Some i else None))"

definition Object_entries :: "(string \<times> 'v) list \<Rightarrow> (string \<times> 'v) list" where
  "Object_entries obj =
     sort_key (\<lambda>p. case array_index (fst p) of None \<Rightarrow> 0 | Some i \<Rightarrow> i)
       (filter (\<lambda>p. array_index (fst p) \<noteq> None) obj)
     @ filter (\<lambda>p. array_index (fst p) = None) obj"

text \<open>
  A C3 chart is the columns it shows: the series id and its cells. Every \<open>load\<close> of the
  source passes the same series ids the chart was generated with, so a load replaces the
  columns. \<open>NS x\<close> is \<open>String(x)\<close>.
\<close>

datatype cell = S string | N real | NS real

type_synonym chart = "(string \<times> cell list) list"

section \<open>Housing dashboard: data\<close>

text \<open>One entry of a tract's \<open>RENT_TIMESERIES\<close>; \<open>ts_rent\<close> is its field \<open>rent\<close>.\<close>

record ts_entry =
  ts_year :: real
  ts_rent :: "real option"

text \<open>
  The property \<open>RENT_TIMESERIES\<close> as the click handler meets it: \<open>Absent\<close> is a missing,
  null or empty value (falsy), \<open>Malformed\<close> a string that \<open>JSON.parse\<close> rejects,
  \<open>Entries es\<close> a string that parses to the array \<open>es\<close>.
\<close>

datatype ts_raw = Absent | Malformed | Entries "ts_entry list"

text \<open>The properties of a tract feature; \<open>None\<close> is a missing or null property.\<close>

record props =
  GEOID :: "string option"
  NAME :: "string option"
  NEIGHBORHOOD :: "string option"
  MEDIAN_RENT :: "real option"
  RENT_BURDEN_PCT :: "real option"
  RENT_TIMESERIES :: ts_raw
  GRAPI_LESS_15 :: "real option"
  GRAPI_15_20 :: "real option"
  GRAPI_20_25 :: "real option"
  GRAPI_25_30 :: "real option"
  GRAPI_30_35 :: "real option"
  GRAPI_35_PLUS :: "real option"

datatype 'r geojson = FeatureCollection "'r list"

datatype visibility = Visible | Hidden

text \<open>
  The state of the housing dashboard: the globals of panel.js, charts.js and map.js, the
  DOM nodes they write, the style layers of the map with their \<open>visibility\<close>, and the
  calls of \<open>updateFromMap\<close> that \<open>setTimeout\<close> has scheduled and not yet run.
\<close>

record dash =
  activeLayer :: string
  active_button :: "string option"
  legend_title :: string
  legend_items :: "(string \<times> string) list"
  stat_label :: string
  stat_value :: dom_text
  stat_sub :: dom_text
  tooltip_display :: string
  barChart :: "chart option"
  lineChart :: "chart option"
  donutChart :: "chart option"
  chart2_title :: string
  chart3_title :: string
  sources :: "string \<rightharpoonup> props geojson"
  layers :: "string \<rightharpoonup> visibility"
  hover_opacity :: real
  hoveredTractId :: "string option"
  camera :: "(real \<times> real) \<times> real"
  events_wired :: bool
  panel_wired :: bool
  pending :: nat
  console :: "string list"

section \<open>Housing dashboard: panel.js\<close>

definition LEGEND_CONFIG :: "string \<rightharpoonup> string \<times> (string \<times> string) list" where
  "LEGEND_CONFIG = [
     ''rent'' \<mapsto> (''Median Rent / Unit'',
        [(''#1a3a5c'', ''< $1,000''),
         (''#1f6b8a'', ''$1,000 '' @ EN_DASH @ '' $1,500''),
         (''#2a9d8f'', ''$1,500 '' @ EN_DASH @ '' $2,000''),
         (''#e9c46a'', ''$2,000 '' @ EN_DASH @ '' $2,500''),
         (''#e76f51'', ''> $2,500'')]),
     ''burden'' \<mapsto> (''Renters Paying 35%+ of Income'',
        [(''#2d6a4f'', ''< 20%''),
         (''#74c69d'', ''20 '' @ EN_DASH @ '' 35%''),
         (''#ffd166'', ''35 '' @ EN_DASH @ '' 50%''),
         (''#ef6351'', ''50 '' @ EN_DASH @ '' 65%''),
         (''#9b2226'', ''> 65%'')]),
     ''mha'' \<mapsto> (''MHA Zone Type'',
        [(''#4361ee'', ''M  '' @ EM_DASH @ '' Base Requirement''),
         (''#7209b7'', ''M1 '' @ EM_DASH @ '' Increased Requirement''),
         (''#f72585'', ''M2 '' @ EM_DASH @ '' Highest Requirement''),
         (''#555555'', ''No MHA Requirement'')])]"

text \<open>
  \<open>renderLegend(layer)\<close>. For a name inherited from \<open>Object.prototype\<close> the lookup passes
  the test \<open>!config\<close>; the title is set from the undefined \<open>config.title\<close> (the empty
  text), the rows are cleared, and \<open>config.items.forEach\<close> throws.
\<close>

definition renderLegend :: "string \<Rightarrow> dash \<Rightarrow> dash result" where
  "renderLegend layer s =
     (if layer \<in> set Object_prototype_names
      then Inl (TypeError, s\<lparr>legend_title := [], legend_items := []\<rparr>)
      else (case LEGEND_CONFIG layer of
              None \<Rightarrow> Inr s
            | Some (title, items) \<Rightarrow> Inr (s\<lparr>legend_title := title, legend_items := items\<rparr>)))"

text \<open>\<open>data.map(d => d.MEDIAN_RENT).filter(v => v && v > 0)\<close>\<close>

definition rent_values :: "props list \<Rightarrow> real list" where
  "rent_values data =
     List.map_filter (\<lambda>v. case v of None \<Rightarrow> None
                            | Some x \<Rightarrow> if x \<noteq> 0 \<and> 0 < x then Some x else None)
       (map MEDIAN_RENT data)"

text \<open>\<open>data.map(d => d.RENT_BURDEN_PCT).filter(v => v !== null && v !== undefined)\<close>\<close>

definition burden_values :: "props list \<Rightarrow> real list" where
  "burden_values data = List.map_filter (\<lambda>v. v) (map RENT_BURDEN_PCT data)"

text \<open>\<open>xs.reduce((a, b) => a + b, 0)\<close>\<close>

definition reduce_add :: "real list \<Rightarrow> real" where
  "reduce_add xs = foldl (\<lambda>a b. js_add a b) 0 xs"

text \<open>
  \<open>updateStat(data)\<close>. The callers pass arrays, so the \<open>!data\<close> half of the first test
  never decides. The two early returns write the value node only.
\<close>

definition updateStat :: "props list \<Rightarrow> dash \<Rightarrow> dash" where
  "updateStat data s =
     (if data = [] then s\<lparr>stat_value := Literal EM_DASH\<rparr>
      else if activeLayer s = ''rent'' then
        (let rents = rent_values data in
         if rents = [] then s\<lparr>stat_value := Literal EM_DASH\<rparr>
         else
           (let avg = Math_round (js_div (reduce_add rents) (real (length rents))) in
            s\<lparr>stat_label := ''Avg. Median Rent '' @ MIDDOT @ '' Visible Tracts'',
              stat_value := Dollars avg,
              stat_sub := Count (length rents) '' tracts in view''\<rparr>))
      else if activeLayer s = ''burden'' then
        (let burdens = burden_values data in
         if burdens = [] then s\<lparr>stat_value := Literal EM_DASH\<rparr>
         else
           (let avg = js_div (reduce_add burdens) (real (length burdens)) in
            s\<lparr>stat_label := ''Avg. Rent Burden '' @ MIDDOT @ '' Visible Tracts'',
              stat_value := Percent1 avg,
              stat_sub := Literal ''Renters paying 35%+ of income''\<rparr>))
      else if activeLayer s = ''mha'' then
        s\<lparr>stat_label := ''MHA Zones '' @ MIDDOT @ '' Visible Area'',
          stat_value := Literal ''Policy'',
          stat_sub := Literal ''Mandatory Housing Affordability overlay''\<rparr>
      else s)"

definition hideTooltip :: "dash \<Rightarrow> dash" where
  "hideTooltip s = s\<lparr>tooltip_display := ''none''\<rparr>"

section \<open>Housing dashboard: charts.js\<close>

definition bar_placeholder :: chart where
  "bar_placeholder = [(''x'', []), (''Median Rent'', [])]"

definition line_placeholder :: chart where
  "line_placeholder = [(''x'', []), (''Rent per Unit'', [])]"

definition donut_columns :: "real \<Rightarrow> real \<Rightarrow> real \<Rightarrow> real \<Rightarrow> real \<Rightarrow> real \<Rightarrow> chart" where
  "donut_columns g1 g2 g3 g4 g5 g6 =
     [(''< 15%'', [N g1]),
      (''15'' @ EN_DASH @ ''20%'', [N g2]),
      (''20'' @ EN_DASH @ ''25%'', [N g3]),
      (''25'' @ EN_DASH @ ''30%'', [N g4]),
      (''30'' @ EN_DASH @ ''35%'', [N g5]),
      (''35%+'', [N g6])]"

definition donut_placeholder :: chart where
  "donut_placeholder = donut_columns 0 0 0 0 0 0"

definition initCharts :: "dash \<Rightarrow> dash" where
  "initCharts s = s\<lparr>barChart := Some bar_placeholder,
                     lineChart := Some line_placeholder,
                     donutChart := Some donut_placeholder\<rparr>"

text \<open>The objects \<open>{ neighborhood, rent }\<close> that \<open>updateBarChart\<close> receives.\<close>

record bar_datum =
  neighborhood :: "string option"
  rent :: real

text \<open>\<open>x || 'Unknown'\<close>: a missing or empty name is falsy.\<close>

definition or_Unknown :: "string option \<Rightarrow> string" where
  "or_Unknown x = (case x of None \<Rightarrow> ''Unknown'' | Some n \<Rightarrow> if n = [] then ''Unknown'' else n)"

text \<open>
  \<open>if (!grouped[n]) grouped[n] = []; grouped[n].push(d.rent)\<close> on the own properties of
  \<open>grouped\<close>, an association list in the order of creation.
\<close>

fun push_group :: "string \<Rightarrow> real \<Rightarrow> (string \<times> real list) list \<Rightarrow> (string \<times> real list) list" where
  "push_group n r [] = [(n, [r])]"
| "push_group n r ((k, rs) # g) =
     (if k = n then (k, rs @ [r]) # g else (k, rs) # push_group n r g)"

text \<open>
  The \<open>forEach\<close> that fills \<open>grouped\<close>. For a name inherited from \<open>Object.prototype\<close>
  the test \<open>!grouped[n]\<close> fails, no own property is created, and \<open>grouped[n].push\<close> is
  not a function: the loop throws.
\<close>

definition grouped :: "bar_datum list \<Rightarrow> error + (string \<times> real list) list" where
  "grouped data =
     foldl (\<lambda>g d. case g of
                     Inl e \<Rightarrow> Inl e
                   | Inr obj \<Rightarrow>
                       (let n = or_Unknown (neighborhood d)
                        in if n \<in> set Object_prototype_names then Inl TypeError
                           else Inr (push_group n (rent d) obj)))
       (Inr []) data"

text \<open>
  The chain \<open>Object.entries\<close>, \<open>map\<close>, \<open>filter\<close>, \<open>sort\<close>, \<open>slice(0, 8)\<close> of
  \<open>updateBarChart\<close>: the rounded average of each group, the positive ones, by descending
  rent (the sort is stable), the first eight.
\<close>

definition averaged :: "(string \<times> real list) list \<Rightarrow> (string \<times> int) list" where
  "averaged g =
     map (\<lambda>(name, rents). (name, Math_round (js_div (reduce_add rents) (real (length rents))))) g"

definition ranked :: "bar_datum list \<Rightarrow> error + (string \<times> int) list" where
  "ranked data =
     (case grouped data of
        Inl e \<Rightarrow> Inl e
      | Inr obj \<Rightarrow>
          Inr (take 8 (sort_key (\<lambda>d. - snd d)
                 (filter (\<lambda>d. 0 < snd d) (averaged (Object_entries obj))))))"

definition bar_columns :: "(string \<times> int) list \<Rightarrow> chart" where
  "bar_columns top8 =
     [(''x'', map (\<lambda>d. S (fst d)) top8),
      (''Median Rent'', map (\<lambda>d. N (of_int (snd d))) top8)]"

definition updateBarChart :: "bar_datum list \<Rightarrow> dash \<Rightarrow> dash result" where
  "updateBarChart data s =
     (if barChart s = None \<or> data = [] then Inr s
      else
        (case ranked data of
           Inl e \<Rightarrow> Inl (e, s)
         | Inr top8 \<Rightarrow>
             if top8 = [] then Inr s
             else Inr (s\<lparr>barChart := Some (bar_columns top8)\<rparr>)))"

text \<open>\<open>d.rent && d.rent > 0\<close>\<close>

definition valid_rent :: "ts_entry \<Rightarrow> bool" where
  "valid_rent d = (case ts_rent d of None \<Rightarrow> False | Some r \<Rightarrow> r \<noteq> 0 \<and> 0 < r)"

definition valid_entries :: "ts_entry list \<Rightarrow> ts_entry list" where
  "valid_entries timeseries = sort_key ts_year (filter valid_rent timeseries)"

text \<open>The cell of \<open>d.rent\<close>; past the filter the rent is always there.\<close>

definition rent_cell :: "ts_entry \<Rightarrow> cell" where
  "rent_cell d = (case ts_rent d of None \<Rightarrow> S ''undefined'' | Some r \<Rightarrow> N r)"

definition line_columns :: "ts_entry list \<Rightarrow> chart" where
  "line_columns valid =
     [(''x'', map (\<lambda>d. NS (ts_year d)) valid),
      (''Rent per Unit'', map rent_cell valid)]"

definition updateLineChart :: "string \<Rightarrow> ts_entry list \<Rightarrow> dash \<Rightarrow> dash" where
  "updateLineChart tractName timeseries s =
     (if lineChart s = None \<or> timeseries = [] then s
      else
        (let valid = valid_entries timeseries in
         if valid = [] then s
         else s\<lparr>chart2_title := tractName @ '' '' @ MIDDOT @ '' Rent Over Time'',
                lineChart := Some (line_columns valid)\<rparr>))"

text \<open>\<open>x || 0\<close>\<close>

definition or_0 :: "real option \<Rightarrow> real" where
  "or_0 x = (case x of None \<Rightarrow> 0 | Some v \<Rightarrow> if v = 0 then 0 else v)"

definition updateDonutChart :: "string \<Rightarrow> props \<Rightarrow> dash \<Rightarrow> dash" where
  "updateDonutChart tractName p s =
     (if donutChart s = None then s
      else s\<lparr>chart3_title := tractName @ '' '' @ MIDDOT @ '' Rent Burden'',
             donutChart := Some (donut_columns (or_0 (GRAPI_LESS_15 p)) (or_0 (GRAPI_15_20 p))
                                   (or_0 (GRAPI_20_25 p)) (or_0 (GRAPI_25_30 p))
                                   (or_0 (GRAPI_30_35 p)) (or_0 (GRAPI_35_PLUS p)))\<rparr>)"

definition resetCharts :: "dash \<Rightarrow> dash" where
  "resetCharts s =
     (let s1 = (if lineChart s = None then s
                else s\<lparr>chart2_title := ''Click a tract '' @ MIDDOT @ '' Rent Over Time'',
                       lineChart := Some line_placeholder\<rparr>)
      in if donutChart s1 = None then s1
         else s1\<lparr>chart3_title := ''Click a tract '' @ MIDDOT @ '' Rent Burden Breakdown'',
                 donutChart := Some donut_placeholder\<rparr>)"

section \<open>Housing dashboard: map.js\<close>

text \<open>
  \<open>map.setLayoutProperty(layerId, 'visibility', v)\<close> and the \<open>line-opacity\<close> of the layer
  \<open>housing-hover\<close> set by \<open>map.setPaintProperty\<close>. Mapbox reports an error for a layer
  that is not in the style; the model makes that the failure of the call.
\<close>

definition setLayoutProperty :: "string \<Rightarrow> visibility \<Rightarrow> dash \<Rightarrow> dash result" where
  "setLayoutProperty layerId v s =
     (if layers s layerId = None then Inl (StyleError, s)
      else Inr (s\<lparr>layers := (layers s)(layerId \<mapsto> v)\<rparr>))"

definition setPaintProperty_hover :: "real \<Rightarrow> dash \<Rightarrow> dash result" where
  "setPaintProperty_hover v s =
     (if layers s ''housing-hover'' = None then Inl (StyleError, s)
      else Inr (s\<lparr>hover_opacity := v\<rparr>))"

definition setLayerVisibility :: "string \<Rightarrow> visibility \<Rightarrow> dash \<Rightarrow> dash result" where
  "setLayerVisibility layerId v s =
     (if layers s layerId \<noteq> None then setLayoutProperty layerId v s else Inr s)"

definition isLayerVisible :: "string \<Rightarrow> dash \<Rightarrow> bool" where
  "isLayerVisible layerId s =
     (if layers s layerId = None then False else layers s layerId = Some Visible)"

text \<open>
  The loop of \<open>updateFromMap\<close> that keeps the first feature of each \<open>GEOID\<close>;
  \<open>seen\<close> is the set of ids met so far. A missing or empty id is falsy.
\<close>

fun dedup :: "string list \<Rightarrow> props list \<Rightarrow> props list" where
  "dedup seen [] = []"
| "dedup seen (f # fs) =
     (case GEOID f of
        None \<Rightarrow> dedup seen fs
      | Some i \<Rightarrow> if i \<noteq> [] \<and> i \<notin> set seen then f # dedup (i # seen) fs
                  else dedup seen fs)"

text \<open>\<open>visible.filter(p => p.MEDIAN_RENT > 0).map(p => ({ neighborhood: ..., rent: ... }))\<close>\<close>

definition barData :: "props list \<Rightarrow> bar_datum list" where
  "barData visible =
     List.map_filter
       (\<lambda>p. case MEDIAN_RENT p of
               None \<Rightarrow> None
             | Some r \<Rightarrow> if 0 < r
                         then Some \<lparr>neighborhood = Some (or_Unknown (NEIGHBORHOOD p)), rent = r\<rparr>
                         else None)
       visible"

definition visibleLayer :: "dash \<Rightarrow> string option" where
  "visibleLayer s =
     (let v = (if isLayerVisible ''rent-fill'' s then Some ''rent-fill'' else None)
      in if isLayerVisible ''burden-fill'' s then Some ''burden-fill'' else v)"

text \<open>
  \<open>updateFromMap()\<close>; \<open>rendered\<close> is \<open>map.queryRenderedFeatures\<close>, the properties of the
  features of a layer that the viewport shows.
\<close>

definition updateFromMap :: "(string \<Rightarrow> props list) \<Rightarrow> dash \<Rightarrow> dash result" where
  "updateFromMap rendered s =
     (case visibleLayer s of
        None \<Rightarrow> Inr (updateStat [] s)
      | Some l \<Rightarrow>
          (let visible = dedup [] (rendered l) in
           updateBarChart (barData visible) (updateStat visible s)))"


definition switchMapLayer :: "string \<Rightarrow> dash \<Rightarrow> dash result" where
  "switchMapLayer layer s =
     and_then (setLayerVisibility ''rent-fill'' Hidden s) (\<lambda>s.
     and_then (setLayerVisibility ''burden-fill'' Hidden s) (\<lambda>s.
     and_then (setLayerVisibility ''mha-fill'' Hidden s) (\<lambda>s.
     and_then (setLayerVisibility ''mha-line'' Hidden s) (\<lambda>s.
     and_then
       (if layer = ''rent'' then setLayerVisibility ''rent-fill'' Visible s
        else if layer = ''burden'' then setLayerVisibility ''burden-fill'' Visible s
        else if layer = ''mha'' then
          and_then (setLayerVisibility ''mha-fill'' Visible s)
                   (setLayerVisibility ''mha-line'' Visible)
        else Inr s) (\<lambda>s.
     Inr (s\<lparr>pending := Suc (pending s)\<rparr>))))))"

definition resetMap :: "dash \<Rightarrow> dash result" where
  "resetMap s =
     and_then (switchMapLayer ''rent'' (s\<lparr>camera := ((-122.335, 47.608), 11)\<rparr>)) (\<lambda>s.
     and_then (setPaintProperty_hover 0 s) (\<lambda>s.
     Inr (s\<lparr>hoveredTractId := None\<rparr>)))"

text \<open>\<open>JSON.parse(props.RENT_TIMESERIES || '[]')\<close>\<close>

definition or_empty_array :: "ts_raw \<Rightarrow> ts_raw" where
  "or_empty_array raw = (case raw of Absent \<Rightarrow> Entries [] | _ \<Rightarrow> raw)"

definition JSON_parse :: "ts_raw \<Rightarrow> error + ts_entry list" where
  "JSON_parse raw = (case raw of Entries es \<Rightarrow> Inr es | _ \<Rightarrow> Inl SyntaxError)"

text \<open>
  The click handler of \<open>setupClickEvents\<close> on the features under the pointer. The
  \<open>catch\<close> keeps the empty list and warns.
\<close>

definition map_click :: "props list \<Rightarrow> dash \<Rightarrow> dash result" where
  "map_click features s =
     (case features of
        [] \<Rightarrow> Inr s
      | p # _ \<Rightarrow>
          (let name = (case NAME p of None \<Rightarrow> ''Selected Tract''
                                   | Some n \<Rightarrow> if n = [] then ''Selected Tract'' else n);
               (timeseries, s1) =
                 (case JSON_parse (or_empty_array (RENT_TIMESERIES p)) of
                    Inr es \<Rightarrow> (es, s)
                  | Inl err \<Rightarrow> ([], s\<lparr>console := console s @ [''Could not parse RENT_TIMESERIES:'']\<rparr>))
           in Inr (updateDonutChart name p (updateLineChart name timeseries s1))))"

section \<open>Housing dashboard: the buttons of panel.js\<close>


text \<open>The click handler that \<open>initResetButton\<close> gives the reset button.\<close>

definition reset_click :: "dash \<Rightarrow> dash result" where
  "reset_click s =
     and_then (renderLegend ''rent'' (s\<lparr>activeLayer := ''rent'', active_button := Some ''rent''\<rparr>))
       (\<lambda>s1.
          (let s2 = s1\<lparr>stat_label := ''Avg. Median Rent '' @ MIDDOT @ '' Visible Tracts'',
                      stat_value := Literal EM_DASH,
                      stat_sub := Literal ''Hover a tract for details''\<rparr>
           in and_then (resetMap (resetCharts s2)) (\<lambda>s. Inr (hideTooltip s))))"

definition initPanel :: "dash \<Rightarrow> dash result" where
  "initPanel s = and_then (renderLegend ''rent'' s) (\<lambda>s. Inr (s\<lparr>panel_wired := True\<rparr>))"

text \<open>
  The two fetches of \<open>map.on('load')\<close>, each with its own \<open>then\<close> and \<open>catch\<close>. A fetch
  gives the parsed collection or fails (the request or the parse). The \<open>catch\<close> of a
  chain also takes what its \<open>then\<close> callback throws.
\<close>

definition mha_fetched :: "error + props geojson \<Rightarrow> dash \<Rightarrow> dash" where
  "mha_fetched r s =
     (case r of
        Inl err \<Rightarrow> s\<lparr>console := console s @ [''MHA load error:'']\<rparr>
      | Inr g \<Rightarrow> s\<lparr>sources := (sources s)(''mha'' \<mapsto> g),
                   layers := (layers s)(''mha-fill'' \<mapsto> Hidden, ''mha-line'' \<mapsto> Hidden)\<rparr>)"

definition housing_fetched :: "error + props geojson \<Rightarrow> dash \<Rightarrow> dash" where
  "housing_fetched r s =
     (case r of
        Inl err \<Rightarrow> s\<lparr>console := console s @ [''Housing data load error:'']\<rparr>
      | Inr g \<Rightarrow>
          (let s1 = s\<lparr>sources := (sources s)(''housing'' \<mapsto> g),
                      layers := (layers s)(''rent-fill'' \<mapsto> Visible, ''burden-fill'' \<mapsto> Hidden,
                                           ''housing-line'' \<mapsto> Visible, ''housing-hover'' \<mapsto> Visible),
                      hover_opacity := 0,
                      events_wired := True\<rparr>
           in case and_then (initPanel (initCharts s1))
                     (\<lambda>s2. Inr (s2\<lparr>pending := Suc (pending s2)\<rparr>)) of
                Inr s3 \<Rightarrow> s3
              | Inl (err, s3) \<Rightarrow> s3\<lparr>console := console s3 @ [''Housing data load error:'']\<rparr>))"

text \<open>The load with both answers in; \<open>mha_first\<close> says which fetch answered first.\<close>

definition map_load :: "bool \<Rightarrow> error + props geojson \<Rightarrow> error + props geojson \<Rightarrow> dash \<Rightarrow> dash" where
  "map_load mha_first mha housing s =
     (if mha_first then housing_fetched housing (mha_fetched mha s)
      else mha_fetched mha (housing_fetched housing s))"

text \<open>The page before the map has loaded: no layer, no chart, the rent layer active.\<close>

definition page0 :: dash where
  "page0 = \<lparr>activeLayer = ''rent'', active_button = Some ''rent'',
            legend_title = [], legend_items = [],
            stat_label = [], stat_value = Literal EM_DASH, stat_sub = Literal [],
            tooltip_display = ''none'',
            barChart = None, lineChart = None, donutChart = None,
            chart2_title = [], chart3_title = [],
            sources = Map.empty, layers = Map.empty,
            hover_opacity = 0, hoveredTractId = None,
            camera = ((-122.335, 47.608), 11),
            events_wired = False, panel_wired = False,
            pending = 0, console = []\<rparr>"

section \<open>Burden dashboard: charts.js and panel.js\<close>

text \<open>
  A row of the two burden datasets and a row of the income dataset. \<open>All_v\<close> is the
  source's field \<open>All_\<close>; \<open>inc_YEAR\<close>, \<open>F0_30\<close>, \<open>F30_50\<close>, \<open>F50_80\<close>, \<open>F80_120\<close> and
  \<open>Above_120\<close> are \<open>YEAR\<close>, \<open>F0___30_\<close>, \<open>F30___50_\<close>, \<open>F50___80_\<close>, \<open>F80___120_\<close>
  and \<open>Above_120_\<close>.
\<close>

record burden_row =
  YEAR :: int
  TENURE :: string
  RACE :: string
  AGE :: string
  All_v :: real

record income_row =
  inc_YEAR :: int
  F0_30 :: real
  F30_50 :: real
  F50_80 :: real
  F80_120 :: real
  Above_120 :: real

text \<open>
  The state of the burden dashboard: \<open>window.dashData\<close>, the three charts (\<open>None\<close>
  before \<open>initCharts\<close>), the globals of panel.js and the DOM nodes written.
  \<open>race_year\<close> and \<open>income_year\<close> hold the year shown between brackets, \<open>burden_stat\<close>
  the number shown as \<open>x.toFixed(1) + '%'\<close>.
\<close>

record policy =
  burden50 :: "burden_row list"
  burden30 :: "burden_row list"
  income :: "income_row list"
  trendChart :: "chart option"
  raceChart :: "chart option"
  incomeChart :: "chart option"
  race_year :: "int option"
  income_year :: "int option"
  burden_stat :: "real option"
  year_display :: "int option"
  currentYear :: int
  currentThreshold :: int
  active_threshold_button :: "int option"
  policy_console :: "string list"

definition races :: "string list" where
  "races = [''White'', ''Black'', ''Asian'', ''Hispanic'', ''Native'']"

definition income_labels :: "string list" where
  "income_labels = [''<30% AMI'', ''30'' @ EN_DASH @ ''50%'', ''50'' @ EN_DASH @ ''80%'',
                    ''80'' @ EN_DASH @ ''120%'', ''>120%'']"

definition race_columns :: "real list \<Rightarrow> chart" where
  "race_columns vs = [(''x'', map S races), (''Burden'', map N vs)]"

definition income_columns :: "real list \<Rightarrow> chart" where
  "income_columns vs = [(''x'', map S income_labels), (''Households'', map N vs)]"

text \<open>\<open>initCharts()\<close> of the burden dashboard.\<close>

definition initCharts_policy :: "policy \<Rightarrow> policy" where
  "initCharts_policy s =
     s\<lparr>trendChart := Some [(''x'', []), (''Renters'', [])],
       raceChart := Some (race_columns [0, 0, 0, 0, 0]),
       incomeChart := Some (income_columns [0, 0, 0, 0, 0])\<rparr>"

definition dataset :: "int \<Rightarrow> policy \<Rightarrow> burden_row list" where
  "dataset threshold s = (if threshold = 50 then burden50 s else burden30 s)"

text \<open>A method call on a chart that was never generated throws a \<open>TypeError\<close>.\<close>

definition updateTrendChart :: "int \<Rightarrow> policy \<Rightarrow> policy result" where
  "updateTrendChart threshold s =
     (let rows = sort_key YEAR
                   (filter (\<lambda>f. TENURE f = ''Renters'' \<and> RACE f = ''All'' \<and> AGE f = ''All'')
                      (dataset threshold s))
      in if rows = [] then Inr s
         else if trendChart s = None then Inl (TypeError, s)
         else Inr (s\<lparr>trendChart := Some [(''x'', map (\<lambda>r. NS (of_int (YEAR r))) rows),
                                          (''Renters'', map (\<lambda>r. N (All_v r)) rows)]\<rparr>))"

definition raceValues :: "int \<Rightarrow> burden_row list \<Rightarrow> real list" where
  "raceValues year ds =
     map (\<lambda>race.
            case find (\<lambda>f. YEAR f = year \<and> TENURE f = ''Renters'' \<and> RACE f = race \<and> AGE f = ''All'') ds of
              None \<Rightarrow> 0
            | Some row \<Rightarrow> All_v row)
       races"

definition updateYearCharts :: "int \<Rightarrow> int \<Rightarrow> policy \<Rightarrow> policy result" where
  "updateYearCharts year threshold s =
     (let ds = dataset threshold s in
      if raceChart s = None then Inl (TypeError, s)
      else
        (let s1 = s\<lparr>raceChart := Some (race_columns (raceValues year ds)),
                    race_year := Some year\<rparr>
         in and_then
              (case find (\<lambda>f. inc_YEAR f = year) (income s1) of
                 None \<Rightarrow> Inr s1
               | Some incRow \<Rightarrow>
                   if incomeChart s1 = None then Inl (TypeError, s1)
                   else Inr (s1\<lparr>incomeChart :=
                                   Some (income_columns [F0_30 incRow, F30_50 incRow, F50_80 incRow,
                                                         F80_120 incRow, Above_120 incRow]),
                                 income_year := Some year\<rparr>))
              (\<lambda>s2.
                 case find (\<lambda>f. YEAR f = year \<and> TENURE f = ''Renters'' \<and> RACE f = ''All'' \<and> AGE f = ''All'') ds of
                   None \<Rightarrow> Inr s2
                 | Some statRow \<Rightarrow> Inr (s2\<lparr>burden_stat := Some (All_v statRow * 100)\<rparr>))))"

text \<open>The \<open>input\<close> handler of the year slider and the click handler of a threshold button.\<close>

definition slider_input :: "int \<Rightarrow> policy \<Rightarrow> policy result" where
  "slider_input v s =
     (let s1 = s\<lparr>currentYear := v, year_display := Some v\<rparr>
      in updateYearCharts (currentYear s1) (currentThreshold s1) s1)"

definition threshold_click :: "int \<Rightarrow> policy \<Rightarrow> policy result" where
  "threshold_click t s =
     (let s1 = s\<lparr>active_threshold_button := Some t, currentThreshold := t\<rparr>
      in and_then (updateTrendChart (currentThreshold s1) s1)
                  (updateYearCharts (currentYear s1) (currentThreshold s1)))"

text \<open>
  The \<open>Promise.all\<close> of panel.js with the three answers in. With three collections the
  \<open>then\<close> callback runs; with a failure among them only the \<open>catch\<close> runs, once. The
  \<open>catch\<close> also takes what the callback throws.
\<close>

definition features :: "'r geojson \<Rightarrow> 'r list" where
  "features g = (case g of FeatureCollection fs \<Rightarrow> fs)"

definition data_loaded :: "burden_row geojson \<Rightarrow> burden_row geojson \<Rightarrow> income_row geojson \<Rightarrow> policy \<Rightarrow> policy result" where
  "data_loaded b50 b30 inc s =
     (let s1 = initCharts_policy
                 (s\<lparr>burden50 := features b50, burden30 := features b30, income := features inc\<rparr>)
      in and_then (updateTrendChart (currentThreshold s1) s1)
                  (updateYearCharts (currentYear s1) (currentThreshold s1)))"

definition data_load_error :: "policy \<Rightarrow> policy" where
  "data_load_error s = s\<lparr>policy_console := policy_console s @ [''Data load error:'']\<rparr>"

definition panel_load :: "error + burden_row geojson \<Rightarrow> error + burden_row geojson \<Rightarrow> error + income_row geojson \<Rightarrow> policy \<Rightarrow> policy" where
  "panel_load r50 r30 rinc s =
     (case (r50, r30, rinc) of
        (Inr b50, Inr b30, Inr inc) \<Rightarrow>
          (case data_loaded b50 b30 inc s of
             Inr s' \<Rightarrow> s'
           | Inl (err, s') \<Rightarrow> data_load_error s')
      | _ \<Rightarrow> data_load_error s)"

text \<open>The burden dashboard as its scripts leave it before the data arrives.\<close>

definition policy0 :: policy where
  "policy0 = \<lparr>burden50 = [], burden30 = [], income = [],
              trendChart = None, raceChart = None, incomeChart = None,
              race_year = None, income_year = None, burden_stat = None, year_display = None,
              currentYear = 2022, currentThreshold = 50,
              active_threshold_button = None, policy_console = []\<rparr>"

section \<open>The specification's notions\<close>

text \<open>
  The records with a positive \<open>MEDIAN_RENT\<close>, the arithmetic mean of a list, and the number
  that a text shows, if it shows one.
\<close>

definition positive_rents :: "props list \<Rightarrow> real list" where
  "positive_rents data =
     concat (map (\<lambda>d. case MEDIAN_RENT d of None \<Rightarrow> [] | Some v \<Rightarrow> if 0 < v then [v] else []) data)"


definition shown_number :: "dom_text \<Rightarrow> real option" where
  "shown_number t = (case t of Dollars n \<Rightarrow> Some (of_int n) | Percent1 x \<Rightarrow> Some x | _ \<Rightarrow> None)"

text \<open>A tract with an id, a neighbourhood and a rent, and no other property.\<close>

definition tract :: "string \<Rightarrow> string \<Rightarrow> real option \<Rightarrow> props" where
  "tract i n r = \<lparr>GEOID = Some i, NAME = None, NEIGHBORHOOD = Some n, MEDIAN_RENT = r,
                  RENT_BURDEN_PCT = None, RENT_TIMESERIES = Absent,
                  GRAPI_LESS_15 = None, GRAPI_15_20 = None, GRAPI_20_25 = None,
                  GRAPI_25_30 = None, GRAPI_30_35 = None, GRAPI_35_PLUS = None\<rparr>"

text \<open>
  The four thematic style layers, the ones a layer name stands for, and the visibilities
  that a switch to a layer name leaves: every thematic layer of the style is visible if it
  belongs to the name and hidden if not, every other layer keeps its visibility, and no
  layer is added.
\<close>

definition thematic_layers :: "string set" where
  "thematic_layers = {''rent-fill'', ''burden-fill'', ''mha-fill'', ''mha-line''}"

definition layers_of :: "string \<Rightarrow> string set" where
  "layers_of layer =
     (if layer = ''rent'' then {''rent-fill''}
      else if layer = ''burden'' then {''burden-fill''}
      else if layer = ''mha'' then {''mha-fill'', ''mha-line''}
      else {})"

definition switched :: "string \<Rightarrow> (string \<rightharpoonup> visibility) \<Rightarrow> (string \<rightharpoonup> visibility)" where
  "switched layer m =
     (\<lambda>l. if m l = None then None
          else if l \<in> thematic_layers then Some (if l \<in> layers_of layer then Visible else Hidden)
          else m l)"

text \<open>The legend as \<open>renderLegend\<close> leaves it for a name that is not inherited.\<close>

definition legend_of :: "string \<Rightarrow> dash \<Rightarrow> dash" where
  "legend_of layer s =
     (case LEGEND_CONFIG layer of
        None \<Rightarrow> s
      | Some (title, items) \<Rightarrow> s\<lparr>legend_title := title, legend_items := items\<rparr>)"

text \<open>
  The bar chart after \<open>updateBarChart\<close>, from the outcome of the ranking and the chart
  before: it is replaced when the chart exists and the ranking returns a non-empty series.
\<close>

definition bar_after :: "error + (string \<times> int) list \<Rightarrow> chart option \<Rightarrow> chart option" where
  "bar_after r c =
     (case r of
        Inl e \<Rightarrow> c
      | Inr top8 \<Rightarrow> if c \<noteq> None \<and> top8 \<noteq> [] then Some (bar_columns top8) else c)"




text \<open>The visibility of one layer set, if the layer exists.\<close>

definition set_vis :: "string \<Rightarrow> visibility \<Rightarrow> (string \<rightharpoonup> visibility) \<Rightarrow> (string \<rightharpoonup> visibility)" where
  "set_vis l v m = (if m l = None then m else m(l \<mapsto> v))"

text \<open>The page once both fetches of the map have answered with (empty) collections.\<close>

definition page_loaded :: dash where
  "page_loaded = map_load True (Inr (FeatureCollection [])) (Inr (FeatureCollection [])) page0"

text \<open>The loaded page after an idle event with one tract in view.\<close>

definition page_busy :: dash where
  "page_busy = outcome (updateFromMap (\<lambda>l. [tract ''t1'' ''Ballard'' (Some 1500)]) page_loaded)"

text \<open>
  The visible set of a recomputation pass: the rendered features of the visible
  choropleth layer, one per \<open>GEOID\<close>; empty when neither choropleth layer is visible.
\<close>

definition visible_set :: "(string \<Rightarrow> props list) \<Rightarrow> dash \<Rightarrow> props list" where
  "visible_set rendered s = (case visibleLayer s of None \<Rightarrow> [] | Some l \<Rightarrow> dedup [] (rendered l))"

text \<open>
  An income row for 2022, and the burden dashboard after a load that brought empty burden
  datasets and that one income row.
\<close>

definition income_2022 :: income_row where
  "income_2022 = \<lparr>inc_YEAR = 2022, F0_30 = 100, F30_50 = 200, F50_80 = 300, F80_120 = 400, Above_120 = 500\<rparr>"

definition policy_loaded :: policy where
  "policy_loaded = panel_load (Inr (FeatureCollection [])) (Inr (FeatureCollection []))
                     (Inr (FeatureCollection [income_2022])) policy0"





text \<open>
  The own properties of \<open>grouped\<close> when no name is inherited, and the groups of
  \<open>updateBarChart\<close> past its \<open>filter\<close>, before the sort.
\<close>

definition own_groups :: "bar_datum list \<Rightarrow> (string \<times> real list) list" where
  "own_groups data = foldl (\<lambda>g d. push_group (or_Unknown (neighborhood d)) (rent d) g) [] data"

definition positive_groups :: "bar_datum list \<Rightarrow> (string \<times> int) list" where
  "positive_groups data =
     filter (\<lambda>d. 0 < snd d) (averaged (Object_entries (own_groups data)))"

text \<open>Ten tracts in ten neighbourhoods, with the given rents.\<close>

definition ten_neighborhoods :: "real list \<Rightarrow> bar_datum list" where
  "ten_neighborhoods rs =
     map (\<lambda>(n, r). \<lparr>neighborhood = Some n, rent = r\<rparr>)
       (zip [''Ballard'', ''Fremont'', ''Wallingford'', ''Capitol Hill'', ''Queen Anne'',
             ''Magnolia'', ''Greenwood'', ''Ravenna'', ''Beacon Hill'', ''Georgetown''] rs)"

section \<open>Double arithmetic\<close>

text \<open>
  Rounding to a double moves a number by at most the fraction \<open>1 / 2 ^ 53\<close> of itself,
  and keeps a number \<open>m / 2 ^ j\<close> with \<open>\<bar>m\<bar> < 2 ^ 53\<close> as it is. So sums of whole
  numbers are exact while they stay below \<open>2 ^ 53\<close>, and rounding the double quotient of
  a whole number below \<open>2 ^ 51\<close> by a count gives the same integer as rounding the
  quotient itself.
\<close>

lemma round_even_of_int: "round_even (of_int z) = z"
  by (simp add: round_even_def)




lemma fl_dyadic:
  assumes "\<bar>m\<bar> < 2 ^ 53"
  shows "fl (of_int m / 2 ^ j) = of_int m / 2 ^ j"
proof (cases "m = 0")
  case True
  then show ?thesis by (simp add: fl_def)
next
  case False
  define x :: real where "x = of_int m / 2 ^ j"
  have x0: "x \<noteq> 0" using False by (simp add: x_def)
  define e where "e = \<lfloor>log 2 \<bar>x\<bar>\<rfloor>"
  define u :: real where "u = 2 powr (of_int e - 52)"
  have upos: "0 < u" by (simp add: u_def)
  have "\<bar>real_of_int m\<bar> < 2 ^ 53"
    using assms by (metis of_int_abs of_int_less_numeral_power_cancel_iff)
  then have "\<bar>x\<bar> < 2 ^ 53 / 2 ^ j"
    unfolding x_def by (simp add: divide_strict_right_mono)
  also have "\<dots> = 2 powr (53 - real j)"
    by (simp add: powr_diff powr_realpow)
  finally have "log 2 \<bar>x\<bar> < 53 - real j"
    using x0 by (simp add: log_less_iff)
  then have "e < 53 - int j" unfolding e_def by linarith
  then have "0 \<le> 52 - e - int j" by simp
  then obtain t :: nat where t: "int t = 52 - e - int j"
    using nonneg_int_cases by metis
  then have "52 - real_of_int e = real t + real j"
    by linarith
  have "1 / u = 2 powr (52 - of_int e)"
    by (simp add: u_def powr_diff)
  also have "\<dots> = 2 powr (real t + real j)"
    using \<open>52 - real_of_int e = real t + real j\<close> by simp
  also have "\<dots> = 2 ^ t * 2 ^ j"
    by (simp add: powr_add powr_realpow)
  finally have iu: "1 / u = 2 ^ t * 2 ^ j" .
  have "x / u = x * (1 / u)" by simp
  also have "\<dots> = x * (2 ^ t * 2 ^ j)" by (simp only: iu)
  also have "\<dots> = of_int (m * 2 ^ t)" by (simp add: x_def)
  finally have xu: "x / u = of_int (m * 2 ^ t)" .
  have "round_even (x / u) = m * 2 ^ t"
    unfolding xu by (rule round_even_of_int)
  then have "fl x = of_int (m * 2 ^ t) * u"
    using x0 by (simp add: fl_def u_def e_def Let_def)
  also have "\<dots> = x" using xu upos by (simp add: field_simps)
  finally show ?thesis by (simp add: x_def)
qed



lemma fl_of_int:
  assumes "\<bar>m\<bar> < 2 ^ 53"
  shows "fl (of_int m) = of_int m"
  using fl_dyadic [OF assms, of 0] by simp



lemma fl_numeral: "numeral w < (2 ^ 53 :: int) \<Longrightarrow> fl (numeral w) = numeral w"
  using fl_of_int [of "numeral w"] by simp





lemma rent_values_positive: "rent_values data = positive_rents data"
  by (induction data)
     (simp_all add: rent_values_def positive_rents_def List.map_filter_simps split: option.split)



section \<open>The rent stat\<close>




section \<open>Switching the map layer\<close>

lemma setLayerVisibility_eq:
  "setLayerVisibility l v s = Inr (s\<lparr>layers := set_vis l v (layers s)\<rparr>)"
proof (cases "layers s l")
  case None
  then show ?thesis by (simp add: setLayerVisibility_def set_vis_def)
next
  case (Some a)
  then show ?thesis by (simp add: setLayerVisibility_def setLayoutProperty_def set_vis_def)
qed

lemma and_then_vis:
  "and_then (setLayerVisibility l v s) f = f (s\<lparr>layers := set_vis l v (layers s)\<rparr>)"
  by (simp add: setLayerVisibility_eq and_then_def)

lemma set_vis_apply:
  "set_vis l v m x = (if x = l \<and> m l \<noteq> None then Some v else m x)"
  by (simp add: set_vis_def)

lemma switched_rent:
  "set_vis ''rent-fill'' Visible (set_vis ''mha-line'' Hidden (set_vis ''mha-fill'' Hidden
     (set_vis ''burden-fill'' Hidden (set_vis ''rent-fill'' Hidden m)))) = switched ''rent'' m"
  by (rule ext) (simp add: set_vis_apply switched_def thematic_layers_def layers_of_def)

lemma switched_burden:
  "set_vis ''burden-fill'' Visible (set_vis ''mha-line'' Hidden (set_vis ''mha-fill'' Hidden
     (set_vis ''burden-fill'' Hidden (set_vis ''rent-fill'' Hidden m)))) = switched ''burden'' m"
  by (rule ext) (simp add: set_vis_apply switched_def thematic_layers_def layers_of_def)

lemma switched_mha:
  "set_vis ''mha-line'' Visible (set_vis ''mha-fill'' Visible (set_vis ''mha-line'' Hidden
     (set_vis ''mha-fill'' Hidden (set_vis ''burden-fill'' Hidden (set_vis ''rent-fill'' Hidden m)))))
   = switched ''mha'' m"
  by (rule ext) (simp add: set_vis_apply switched_def thematic_layers_def layers_of_def)

lemma switched_other:
  assumes "layer \<noteq> ''rent''" "layer \<noteq> ''burden''" "layer \<noteq> ''mha''"
  shows "set_vis ''mha-line'' Hidden (set_vis ''mha-fill'' Hidden
     (set_vis ''burden-fill'' Hidden (set_vis ''rent-fill'' Hidden m))) = switched layer m"
  using assms by (intro ext) (simp add: set_vis_apply switched_def thematic_layers_def layers_of_def)

lemma switchMapLayer_eq:
  "switchMapLayer layer s = Inr (s\<lparr>layers := switched layer (layers s), pending := Suc (pending s)\<rparr>)"
proof -
  consider "layer = ''rent''" | "layer = ''burden''" | "layer = ''mha''"
    | "layer \<noteq> ''rent''" "layer \<noteq> ''burden''" "layer \<noteq> ''mha''"
    by blast
  then show ?thesis
  proof cases
    case 1
    then show ?thesis
      unfolding switchMapLayer_def and_then_vis by (simp add: and_then_vis switched_rent)
  next
    case 2
    then show ?thesis
      unfolding switchMapLayer_def and_then_vis by (simp add: and_then_vis switched_burden)
  next
    case 3
    then show ?thesis
      unfolding switchMapLayer_def and_then_vis by (simp add: and_then_vis switched_mha)
  next
    case 4
    then show ?thesis
      unfolding switchMapLayer_def and_then_vis by (simp add: and_then_vis switched_other and_then_def)
  qed
qed

text \<open>
  C9. \<open>switchMapLayer\<close> returns for every argument and every state of the map, also for a
  name that is no layer and before any layer was added: each visibility change is guarded,
  a layer that is not in the style is skipped and stays absent.
\<close>

theorem switchMapLayer_never_throws:
  "\<exists>s'. switchMapLayer layer s = Inr s'
        \<and> dom (layers s') = dom (layers s)
        \<and> (\<forall>l. layers s l = None \<longrightarrow> layers s' l = None)"
  by (auto simp: switchMapLayer_eq switched_def dom_def)

theorem switchMapLayer_never_throws_witness:
  "\<exists>s'. switchMapLayer ''no such layer'' page0 = Inr s' \<and> layers s' ''rent-fill'' = None"
  using switchMapLayer_never_throws [of "''no such layer''" page0]
  by (auto simp: page0_def)

section \<open>The legend\<close>

lemma renderLegend_eq:
  "layer \<notin> set Object_prototype_names \<Longrightarrow> renderLegend layer s = Inr (legend_of layer s)"
  by (simp add: renderLegend_def legend_of_def split: option.split prod.split)


lemma rent_not_inherited: "''rent'' \<notin> set Object_prototype_names"
  by (simp add: Object_prototype_names_def)

lemma legend_of_keeps:
  "activeLayer (legend_of l s) = activeLayer s"
  "active_button (legend_of l s) = active_button s"
  "layers (legend_of l s) = layers s"
  "pending (legend_of l s) = pending s"
  "stat_value (legend_of l s) = stat_value s"
  "barChart (legend_of l s) = barChart s"
  "lineChart (legend_of l s) = lineChart s"
  "donutChart (legend_of l s) = donutChart s"
  "sources (legend_of l s) = sources s"
  "console (legend_of l s) = console s"
  "events_wired (legend_of l s) = events_wired s"
  "panel_wired (legend_of l s) = panel_wired s"
  by (simp_all add: legend_of_def split: option.split prod.split)

lemma legend_of_known:
  "LEGEND_CONFIG l = Some c \<Longrightarrow>
     (legend_title (legend_of l s), legend_items (legend_of l s)) = c"
  by (cases c) (simp add: legend_of_def)

lemma LEGEND_CONFIG_known:
  "l \<in> {''rent'', ''burden'', ''mha''} \<Longrightarrow> \<exists>c. LEGEND_CONFIG l = Some c"
  by (auto simp: LEGEND_CONFIG_def)

section \<open>Clicks on a tract\<close>

lemma updateDonutChart_keeps_line:
  "lineChart (updateDonutChart name p s) = lineChart s"
  "chart2_title (updateDonutChart name p s) = chart2_title s"
  by (simp_all add: updateDonutChart_def)

lemma updateLineChart_empty: "updateLineChart name [] s = s"
  by (simp add: updateLineChart_def)

lemma valid_entries_none:
  assumes "\<forall>d\<in>set timeseries. \<forall>r. ts_rent d = Some r \<longrightarrow> r \<le> 0"
  shows "valid_entries timeseries = []"
proof -
  have "\<not> valid_rent d" if "d \<in> set timeseries" for d
    using assms that by (fastforce simp: valid_rent_def split: option.splits)
  then have "filter valid_rent timeseries = []" by (simp add: filter_empty_conv)
  then show ?thesis by (simp add: valid_entries_def)
qed

text \<open>
  C10. A click on a feature whose \<open>RENT_TIMESERIES\<close> is missing or does not parse returns
  normally: the handler goes on with the empty list, and the line chart and its title stay
  as they were. \<open>updateLineChart\<close> changes nothing when the list is empty or has no entry
  with a positive rent.
\<close>

theorem click_without_timeseries:
  "(RENT_TIMESERIES p = Absent \<or> RENT_TIMESERIES p = Malformed \<longrightarrow>
      (\<exists>s'. map_click (p # ps) s = Inr s'
          \<and> lineChart s' = lineChart s \<and> chart2_title s' = chart2_title s))
   \<and> (timeseries = [] \<or> (\<forall>d\<in>set timeseries. \<forall>r. ts_rent d = Some r \<longrightarrow> r \<le> 0) \<longrightarrow>
        updateLineChart name timeseries s = s)"
proof (intro conjI impI)
  assume "RENT_TIMESERIES p = Absent \<or> RENT_TIMESERIES p = Malformed"
  then show "\<exists>s'. map_click (p # ps) s = Inr s'
          \<and> lineChart s' = lineChart s \<and> chart2_title s' = chart2_title s"
  proof
    assume "RENT_TIMESERIES p = Absent"
    then show ?thesis
      by (simp add: map_click_def or_empty_array_def JSON_parse_def Let_def
            updateLineChart_empty updateDonutChart_keeps_line)
  next
    assume "RENT_TIMESERIES p = Malformed"
    then show ?thesis
      by (simp add: map_click_def or_empty_array_def JSON_parse_def Let_def
            updateLineChart_empty updateDonutChart_keeps_line)
  qed
next
  assume "timeseries = [] \<or> (\<forall>d\<in>set timeseries. \<forall>r. ts_rent d = Some r \<longrightarrow> r \<le> 0)"
  then show "updateLineChart name timeseries s = s"
  proof
    assume "timeseries = []"
    then show ?thesis by (simp add: updateLineChart_empty)
  next
    assume "\<forall>d\<in>set timeseries. \<forall>r. ts_rent d = Some r \<longrightarrow> r \<le> 0"
    then have "valid_entries timeseries = []" by (rule valid_entries_none)
    then show ?thesis by (simp add: updateLineChart_def)
  qed
qed

theorem click_without_timeseries_witness:
  "RENT_TIMESERIES ((tract ''t1'' ''Ballard'' (Some 1500))\<lparr>RENT_TIMESERIES := Malformed\<rparr>) = Malformed
   \<and> (\<exists>s'. map_click [(tract ''t1'' ''Ballard'' (Some 1500))\<lparr>RENT_TIMESERIES := Malformed\<rparr>] page_loaded = Inr s'
          \<and> lineChart s' = lineChart page_loaded \<and> chart2_title s' = chart2_title page_loaded)
   \<and> updateLineChart ''Tract 1'' [\<lparr>ts_year = 2020, ts_rent = Some 0\<rparr>, \<lparr>ts_year = 2021, ts_rent = None\<rparr>] page_loaded
       = page_loaded"
proof -
  have a: "RENT_TIMESERIES ((tract ''t1'' ''Ballard'' (Some 1500))\<lparr>RENT_TIMESERIES := Malformed\<rparr>) = Malformed"
    by simp
  have b: "\<forall>d\<in>set [\<lparr>ts_year = 2020, ts_rent = Some 0\<rparr>, \<lparr>ts_year = 2021, ts_rent = None\<rparr>].
          \<forall>r. ts_rent d = Some r \<longrightarrow> r \<le> (0::real)"
    by simp
  from a b click_without_timeseries
    [of "(tract ''t1'' ''Ballard'' (Some 1500))\<lparr>RENT_TIMESERIES := Malformed\<rparr>"
        "[]" page_loaded "[\<lparr>ts_year = 2020, ts_rent = Some 0\<rparr>, \<lparr>ts_year = 2021, ts_rent = None\<rparr>]" "''Tract 1''"]
  show ?thesis by blast
qed

section \<open>The stat without data\<close>

text \<open>
  C7. For an empty visible set, on the rent layer when no record has a positive
  \<open>MEDIAN_RENT\<close>, and on the burden layer when no record has a \<open>RENT_BURDEN_PCT\<close>, the
  stat value is the dash: it shows no number, neither NaN nor 0.
\<close>

theorem stat_no_data_marker:
  assumes "data = []
         \<or> (activeLayer s = ''rent'' \<and> (\<forall>d\<in>set data. \<forall>v. MEDIAN_RENT d = Some v \<longrightarrow> v \<le> 0))
         \<or> (activeLayer s = ''burden'' \<and> (\<forall>d\<in>set data. RENT_BURDEN_PCT d = None))"
  shows "stat_value (updateStat data s) = Literal EM_DASH
       \<and> shown_number (stat_value (updateStat data s)) = None
       \<and> stat_value (updateStat data s) \<notin> {Literal ''NaN'', Literal ''0'', Dollars 0, Percent1 0}"
proof -
  have "stat_value (updateStat data s) = Literal EM_DASH"
    using assms
  proof (elim disjE conjE)
    assume "data = []"
    then show ?thesis by (simp add: updateStat_def)
  next
    assume r: "activeLayer s = ''rent''" and "\<forall>d\<in>set data. \<forall>v. MEDIAN_RENT d = Some v \<longrightarrow> v \<le> 0"
    then have "positive_rents data = []"
      by (fastforce simp: positive_rents_def split: option.splits)
    with r show ?thesis by (simp add: updateStat_def rent_values_positive)
  next
    assume b: "activeLayer s = ''burden''" and "\<forall>d\<in>set data. RENT_BURDEN_PCT d = None"
    then have "burden_values data = []"
      by (induction data) (simp_all add: burden_values_def List.map_filter_simps)
    with b show ?thesis by (simp add: updateStat_def)
  qed
  then show ?thesis by (simp add: shown_number_def EM_DASH_def)
qed

theorem stat_no_data_marker_witness:
  "stat_value (updateStat [] page0) = Literal EM_DASH
   \<and> activeLayer page0 = ''rent''
   \<and> map MEDIAN_RENT [tract ''a'' ''A'' (Some 0), tract ''b'' ''B'' None] = [Some 0, None]
   \<and> stat_value (updateStat [tract ''a'' ''A'' (Some 0), tract ''b'' ''B'' None] page0) = Literal EM_DASH
   \<and> activeLayer (page0\<lparr>activeLayer := ''burden''\<rparr>) = ''burden''
   \<and> map RENT_BURDEN_PCT [tract ''a'' ''A'' (Some 900)] = [None]
   \<and> stat_value (updateStat [tract ''a'' ''A'' (Some 900)] (page0\<lparr>activeLayer := ''burden''\<rparr>)) = Literal EM_DASH"
proof -
  have r: "activeLayer page0 = ''rent''" by (simp add: page0_def)
  have r2: "\<forall>d\<in>set [tract ''a'' ''A'' (Some 0), tract ''b'' ''B'' None]. \<forall>v. MEDIAN_RENT d = Some v \<longrightarrow> v \<le> 0"
    by (simp add: tract_def)
  have b: "activeLayer (page0\<lparr>activeLayer := ''burden''\<rparr>) = ''burden''" by simp
  have b2: "\<forall>d\<in>set [tract ''a'' ''A'' (Some 900)]. RENT_BURDEN_PCT d = None"
    by (simp add: tract_def)
  show ?thesis
    using stat_no_data_marker [of "[]" page0]
      stat_no_data_marker [of "[tract ''a'' ''A'' (Some 0), tract ''b'' ''B'' None]" page0]
      stat_no_data_marker [of "[tract ''a'' ''A'' (Some 900)]" "page0\<lparr>activeLayer := ''burden''\<rparr>"]
      r r2 b b2
    by (simp add: tract_def)
qed

section \<open>The recomputation pass\<close>

lemma updateStat_keeps:
  "barChart (updateStat data s) = barChart s"
  "layers (updateStat data s) = layers s"
  "activeLayer (updateStat data s) = activeLayer s"
  by (simp_all add: updateStat_def Let_def)

lemma ranked_Nil: "ranked [] = Inr []"
  by (simp add: ranked_def grouped_def averaged_def Object_entries_def)

lemma same_bar: "s\<lparr>barChart := barChart s\<rparr> = s"
  by simp

lemma updateBarChart_outcome:
  "outcome (updateBarChart data s) = s\<lparr>barChart := bar_after (ranked data) (barChart s)\<rparr>"
proof (cases "barChart s = None \<or> data = []")
  case True
  then have "bar_after (ranked data) (barChart s) = barChart s"
    by (auto simp: bar_after_def ranked_Nil split: sum.split)
  with True show ?thesis
    by (simp add: updateBarChart_def outcome_def)
next
  case False
  show ?thesis
  proof (cases "ranked data")
    case (Inl e)
    then have "bar_after (ranked data) (barChart s) = barChart s"
      by (simp add: bar_after_def)
    with False Inl show ?thesis
      by (simp add: updateBarChart_def outcome_def)
  next
    case (Inr top8)
    show ?thesis
    proof (cases "top8 = []")
      case True
      with Inr have "bar_after (ranked data) (barChart s) = barChart s"
        by (simp add: bar_after_def)
      with False Inr True show ?thesis
        by (simp add: updateBarChart_def outcome_def)
    next
      case n: False
      with Inr False have "bar_after (ranked data) (barChart s) = Some (bar_columns top8)"
        by (simp add: bar_after_def)
      with False Inr n show ?thesis
        by (simp add: updateBarChart_def outcome_def)
    qed
  qed
qed

lemma updateFromMap_outcome:
  "outcome (updateFromMap rendered s) =
     (updateStat (visible_set rendered s) s)
       \<lparr>barChart := bar_after (ranked (barData (visible_set rendered s))) (barChart s)\<rparr>"
proof (cases "visibleLayer s")
  case None
  then have v: "visible_set rendered s = []" by (simp add: visible_set_def)
  have b: "bar_after (ranked (barData [])) (barChart s) = barChart (updateStat [] s)"
    by (simp add: barData_def List.map_filter_simps ranked_Nil bar_after_def updateStat_keeps)
  have "outcome (updateFromMap rendered s) = updateStat [] s"
    using None by (simp add: updateFromMap_def outcome_def)
  then show ?thesis unfolding v b by (simp only: same_bar)
next
  case (Some l)
  then have "updateFromMap rendered s =
        updateBarChart (barData (visible_set rendered s)) (updateStat (visible_set rendered s) s)"
    by (simp add: updateFromMap_def visible_set_def Let_def)
  then show ?thesis
    by (simp only: updateBarChart_outcome updateStat_keeps)
qed

lemma updateStat_pending: "pending (updateStat data s) = pending s"
  by (simp add: updateStat_def Let_def)

lemma updateFromMap_stat:
  "stat_value (outcome (updateFromMap rendered s)) = stat_value (updateStat (visible_set rendered s) s)"
  by (simp add: updateFromMap_outcome)

lemma updateFromMap_bar:
  "barChart (outcome (updateFromMap rendered s)) =
     bar_after (ranked (barData (visible_set rendered s))) (barChart s)"
  by (simp add: updateFromMap_outcome)

lemma updateFromMap_keeps:
  "layers (outcome (updateFromMap rendered s)) = layers s"
  "activeLayer (outcome (updateFromMap rendered s)) = activeLayer s"
  "pending (outcome (updateFromMap rendered s)) = pending s"
  by (simp_all add: updateFromMap_outcome updateStat_keeps updateStat_pending)

lemma page_loaded_fields:
  "activeLayer page_loaded = ''rent''"
  "barChart page_loaded = Some bar_placeholder"
  "lineChart page_loaded = Some line_placeholder"
  "layers page_loaded ''rent-fill'' = Some Visible"
  "layers page_loaded ''burden-fill'' = Some Hidden"
  "layers page_loaded ''housing-hover'' = Some Visible"
  by (simp_all add: page_loaded_def map_load_def housing_fetched_def mha_fetched_def
        initPanel_def initCharts_def renderLegend_eq [OF rent_not_inherited] legend_of_def
        LEGEND_CONFIG_def and_then_def page0_def)

lemma visibleLayer_page_loaded: "visibleLayer page_loaded = Some ''rent-fill''"
  by (simp add: visibleLayer_def isLayerVisible_def page_loaded_fields)

lemma not_index_letter:
  "digit_value c = None \<Longrightarrow> array_index (c # cs) = None"
  by (simp add: array_index_def)

lemma Object_entries_one: "Object_entries [(n, v)] = [(n, v)]"
  by (cases "array_index n") (simp_all add: Object_entries_def)

lemma ranked_Ballard:
  "ranked (barData [tract ''t1'' ''Ballard'' (Some 1500)]) = Inr [(''Ballard'', 1500)]"
  by (simp add: ranked_def barData_def List.map_filter_simps tract_def or_Unknown_def
        grouped_def Object_prototype_names_def Object_entries_one averaged_def reduce_add_def
        js_add_def js_div_def fl_numeral Math_round_def)

lemma page_busy_fields:
  "barChart page_busy = Some (bar_columns [(''Ballard'', 1500)])"
  "stat_value page_busy = Dollars 1500"
  "layers page_busy ''housing-hover'' = Some Visible"
  "visibleLayer page_busy = Some ''rent-fill''"
  "activeLayer page_busy = ''rent''"
  "layers page_busy ''burden-fill'' = Some Hidden"
  "layers page_busy ''rent-fill'' = Some Visible"
proof -
  have v: "visible_set (\<lambda>l. [tract ''t1'' ''Ballard'' (Some 1500)]) page_loaded
             = [tract ''t1'' ''Ballard'' (Some 1500)]"
    by (simp add: visible_set_def visibleLayer_page_loaded) (simp add: tract_def)
  show "barChart page_busy = Some (bar_columns [(''Ballard'', 1500)])"
    unfolding page_busy_def updateFromMap_bar v ranked_Ballard
    by (simp add: page_loaded_fields bar_after_def)
  show "stat_value page_busy = Dollars 1500"
    unfolding page_busy_def updateFromMap_stat v
    by (simp add: updateStat_def page_loaded_fields rent_values_def List.map_filter_simps
          tract_def reduce_add_def js_add_def js_div_def fl_numeral Math_round_def)
  show "layers page_busy ''housing-hover'' = Some Visible"
    by (simp add: page_busy_def updateFromMap_keeps page_loaded_fields)
  show "visibleLayer page_busy = Some ''rent-fill''"
    by (simp add: visibleLayer_def isLayerVisible_def page_busy_def updateFromMap_keeps page_loaded_fields)
  show "activeLayer page_busy = ''rent''"
    by (simp add: page_busy_def updateFromMap_keeps page_loaded_fields)
  show "layers page_busy ''burden-fill'' = Some Hidden"
    by (simp add: page_busy_def updateFromMap_keeps page_loaded_fields)
  show "layers page_busy ''rent-fill'' = Some Visible"
    by (simp add: page_busy_def updateFromMap_keeps page_loaded_fields)
qed

text \<open>
  C4, as the code has it. A pass of \<open>updateFromMap\<close> always writes the stat value from
  the current visible set. It replaces the bar series, computed from the same visible set,
  only when the bar chart exists and the set yields a neighbourhood with a positive rounded
  mean rent; otherwise (also when the grouping throws) the bar chart keeps the series it
  had.
\<close>

theorem updateFromMap_views:
  "stat_value (outcome (updateFromMap rendered s))
     = stat_value (updateStat (visible_set rendered s) s)
   \<and> barChart (outcome (updateFromMap rendered s)) =
       (case ranked (barData (visible_set rendered s)) of
          Inl e \<Rightarrow> barChart s
        | Inr top8 \<Rightarrow> if barChart s \<noteq> None \<and> top8 \<noteq> [] then Some (bar_columns top8)
                      else barChart s)"
  by (simp add: updateFromMap_stat updateFromMap_bar bar_after_def)

theorem updateFromMap_views_witness:
  "stat_value (outcome (updateFromMap (\<lambda>l. [tract ''t1'' ''Ballard'' (Some 1500)]) page_loaded))
     = Dollars 1500
   \<and> barChart (outcome (updateFromMap (\<lambda>l. [tract ''t1'' ''Ballard'' (Some 1500)]) page_loaded))
       = Some (bar_columns [(''Ballard'', 1500)])"
proof -
  have v: "visible_set (\<lambda>l. [tract ''t1'' ''Ballard'' (Some 1500)]) page_loaded
             = [tract ''t1'' ''Ballard'' (Some 1500)]"
    by (simp add: visible_set_def visibleLayer_page_loaded) (simp add: tract_def)
  have st: "stat_value (updateStat [tract ''t1'' ''Ballard'' (Some 1500)] page_loaded) = Dollars 1500"
    by (simp add: updateStat_def page_loaded_fields rent_values_def List.map_filter_simps
          tract_def reduce_add_def js_add_def js_div_def fl_numeral Math_round_def)
  from updateFromMap_views [of "\<lambda>l. [tract ''t1'' ''Ballard'' (Some 1500)]" page_loaded]
  show ?thesis
    unfolding v ranked_Ballard st by (simp add: page_loaded_fields)
qed

text \<open>
  With Ballard at 1500 in the bar chart, an idle event over an empty viewport sets the stat
  to the dash and leaves Ballard at 1500 in the bar chart.
\<close>

theorem stale_bar_counterexample:
  "stat_value (outcome (updateFromMap (\<lambda>l. []) page_busy)) = Literal EM_DASH
   \<and> barChart (outcome (updateFromMap (\<lambda>l. []) page_busy)) = Some (bar_columns [(''Ballard'', 1500)])
   \<and> bar_columns [(''Ballard'', 1500)] = [(''x'', [S ''Ballard'']), (''Median Rent'', [N 1500])]"
proof -
  have v: "visible_set (\<lambda>l. []) page_busy = []"
    by (simp add: visible_set_def page_busy_fields)
  show ?thesis
    unfolding updateFromMap_stat updateFromMap_bar v
    by (simp add: updateStat_def barData_def List.map_filter_simps ranked_Nil page_busy_fields
          bar_columns_def bar_after_def)
qed

section \<open>The reset button\<close>

lemma resetCharts_cases:
  "resetCharts s =
     (case (lineChart s, donutChart s) of
        (None, None) \<Rightarrow> s
      | (None, Some d) \<Rightarrow> s\<lparr>chart3_title := ''Click a tract '' @ MIDDOT @ '' Rent Burden Breakdown'',
                             donutChart := Some donut_placeholder\<rparr>
      | (Some l, None) \<Rightarrow> s\<lparr>chart2_title := ''Click a tract '' @ MIDDOT @ '' Rent Over Time'',
                             lineChart := Some line_placeholder\<rparr>
      | (Some l, Some d) \<Rightarrow> s\<lparr>chart2_title := ''Click a tract '' @ MIDDOT @ '' Rent Over Time'',
                               lineChart := Some line_placeholder,
                               chart3_title := ''Click a tract '' @ MIDDOT @ '' Rent Burden Breakdown'',
                               donutChart := Some donut_placeholder\<rparr>)"
  by (cases "lineChart s"; cases "donutChart s") (simp_all add: resetCharts_def)

lemma resetCharts_charts:
  "lineChart (resetCharts s) = (if lineChart s = None then None else Some line_placeholder)"
  "donutChart (resetCharts s) = (if donutChart s = None then None else Some donut_placeholder)"
  "barChart (resetCharts s) = barChart s"
  by (cases "lineChart s"; cases "donutChart s"; simp add: resetCharts_cases)+

lemma resetCharts_keeps:
  "activeLayer (resetCharts s) = activeLayer s"
  "active_button (resetCharts s) = active_button s"
  "legend_title (resetCharts s) = legend_title s"
  "legend_items (resetCharts s) = legend_items s"
  "stat_label (resetCharts s) = stat_label s"
  "stat_value (resetCharts s) = stat_value s"
  "stat_sub (resetCharts s) = stat_sub s"
  "layers (resetCharts s) = layers s"
  "pending (resetCharts s) = pending s"
  by (cases "lineChart s"; cases "donutChart s"; simp add: resetCharts_cases)+

lemma resetMap_eq:
  assumes "layers s ''housing-hover'' \<noteq> None"
  shows "resetMap s = Inr (s\<lparr>camera := ((-122.335, 47.608), 11),
                            layers := switched ''rent'' (layers s),
                            pending := Suc (pending s),
                            hover_opacity := 0,
                            hoveredTractId := None\<rparr>)"
proof -
  have "switched ''rent'' (layers s) ''housing-hover'' \<noteq> None"
    using assms by (simp add: switched_def thematic_layers_def)
  then show ?thesis
    by (simp add: resetMap_def switchMapLayer_eq and_then_def setPaintProperty_hover_def)
qed

lemma reset_click_eq:
  assumes "layers s ''housing-hover'' \<noteq> None"
  shows "reset_click s =
     Inr ((resetCharts
            ((legend_of ''rent'' (s\<lparr>activeLayer := ''rent'', active_button := Some ''rent''\<rparr>))
               \<lparr>stat_label := ''Avg. Median Rent '' @ MIDDOT @ '' Visible Tracts'',
                 stat_value := Literal EM_DASH,
                 stat_sub := Literal ''Hover a tract for details''\<rparr>))
          \<lparr>camera := ((-122.335, 47.608), 11),
            layers := switched ''rent'' (layers s),
            pending := Suc (pending s),
            hover_opacity := 0,
            hoveredTractId := None,
            tooltip_display := ''none''\<rparr>)"
proof -
  let ?s3 = "resetCharts
            ((legend_of ''rent'' (s\<lparr>activeLayer := ''rent'', active_button := Some ''rent''\<rparr>))
               \<lparr>stat_label := ''Avg. Median Rent '' @ MIDDOT @ '' Visible Tracts'',
                 stat_value := Literal EM_DASH,
                 stat_sub := Literal ''Hover a tract for details''\<rparr>)"
  have l: "layers ?s3 = layers s" and p: "pending ?s3 = pending s"
    by (simp_all add: resetCharts_keeps legend_of_keeps)
  with assms have "layers ?s3 ''housing-hover'' \<noteq> None" by simp
  then have rm: "resetMap ?s3 = Inr (?s3\<lparr>camera := ((-122.335, 47.608), 11),
                            layers := switched ''rent'' (layers ?s3),
                            pending := Suc (pending ?s3),
                            hover_opacity := 0,
                            hoveredTractId := None\<rparr>)"
    by (rule resetMap_eq)
  have "reset_click s = and_then (resetMap ?s3) (\<lambda>s. Inr (hideTooltip s))"
    by (simp add: reset_click_def Let_def renderLegend_eq [OF rent_not_inherited] and_then_def)
  also have "\<dots> = Inr (hideTooltip (?s3\<lparr>camera := ((-122.335, 47.608), 11),
                            layers := switched ''rent'' (layers ?s3),
                            pending := Suc (pending ?s3),
                            hover_opacity := 0,
                            hoveredTractId := None\<rparr>))"
    unfolding rm by (simp add: and_then_def)
  finally show ?thesis
    unfolding l p by (simp add: hideTooltip_def)
qed

text \<open>
  C3, as the code has it. Once the housing layers are in the style (the reset button is
  wired after they are added), a click on the reset button returns normally from every
  state and leaves: the rent layer active with its button and legend, the stat block at its
  placeholder texts with the dash as value, no hovered tract, the hover outline and the
  tooltip hidden, the default camera, the thematic layers switched to rent, one run of
  \<open>updateFromMap\<close> scheduled, and the two click-driven charts (line and donut), where they
  exist, at their placeholder series. The bar chart is not reset: it keeps its series. The
  housing dashboard has no year and no threshold.
\<close>

theorem reset_click_restores:
  assumes "layers s ''housing-hover'' \<noteq> None"
  shows "\<exists>s'. reset_click s = Inr s'
     \<and> activeLayer s' = ''rent'' \<and> active_button s' = Some ''rent''
     \<and> LEGEND_CONFIG ''rent'' = Some (legend_title s', legend_items s')
     \<and> stat_label s' = ''Avg. Median Rent '' @ MIDDOT @ '' Visible Tracts''
     \<and> stat_value s' = Literal EM_DASH
     \<and> stat_sub s' = Literal ''Hover a tract for details''
     \<and> hoveredTractId s' = None \<and> hover_opacity s' = 0 \<and> tooltip_display s' = ''none''
     \<and> camera s' = ((-122.335, 47.608), 11)
     \<and> layers s' = switched ''rent'' (layers s)
     \<and> pending s' = Suc (pending s)
     \<and> lineChart s' = (if lineChart s = None then None else Some line_placeholder)
     \<and> donutChart s' = (if donutChart s = None then None else Some donut_placeholder)
     \<and> barChart s' = barChart s"
proof -
  obtain c where c: "LEGEND_CONFIG ''rent'' = Some c"
    using LEGEND_CONFIG_known [of "''rent''"] by auto
  have leg: "LEGEND_CONFIG ''rent'' = Some (legend_title (legend_of ''rent'' t), legend_items (legend_of ''rent'' t))" for t
    using legend_of_known [OF c, of t] c by simp
  show ?thesis
    unfolding reset_click_eq [OF assms]
    by (simp add: resetCharts_keeps resetCharts_charts legend_of_keeps leg [symmetric])
qed

theorem reset_click_restores_witness:
  "layers page_busy ''housing-hover'' \<noteq> None
   \<and> (\<exists>s'. reset_click page_busy = Inr s' \<and> activeLayer s' = ''rent''
          \<and> stat_value s' = Literal EM_DASH \<and> hoveredTractId s' = None
          \<and> lineChart s' = (if lineChart page_busy = None then None else Some line_placeholder)
          \<and> barChart s' = barChart page_busy)"
proof -
  have h: "layers page_busy ''housing-hover'' \<noteq> None" by (simp add: page_busy_fields)
  from reset_click_restores [OF h] show ?thesis using h by blast
qed

text \<open>
  After an idle event has loaded the bar chart with Ballard at 1500, a reset leaves that
  series in the bar chart, which is not the placeholder.
\<close>

theorem reset_keeps_bar_counterexample:
  "map_sum id barChart (reset_click page_busy) = Inr (Some (bar_columns [(''Ballard'', 1500)]))
   \<and> bar_columns [(''Ballard'', 1500)] \<noteq> bar_placeholder"
proof -
  have h: "layers page_busy ''housing-hover'' \<noteq> None" by (simp add: page_busy_fields)
  show ?thesis
    unfolding reset_click_eq [OF h]
    by (simp add: resetCharts_charts legend_of_keeps page_busy_fields bar_columns_def
          bar_placeholder_def)
qed

section \<open>The layer toggle\<close>












section \<open>The year charts of the burden dashboard\<close>

lemma find_None_year:
  assumes "\<forall>f\<in>set ds. YEAR f \<noteq> year"
  shows "find (\<lambda>f. YEAR f = year \<and> P f) ds = None"
  using assms by (auto simp: find_None_iff)

lemma raceValues_absent:
  assumes "\<forall>f\<in>set ds. YEAR f \<noteq> year"
  shows "raceValues year ds = [0, 0, 0, 0, 0]"
  by (simp add: raceValues_def races_def find_None_year [OF assms])

lemma raceValues_nth:
  assumes "i < length races"
  shows "raceValues year ds ! i =
           (case find (\<lambda>f. YEAR f = year \<and> TENURE f = ''Renters'' \<and> RACE f = races ! i \<and> AGE f = ''All'') ds of
              None \<Rightarrow> 0 | Some row \<Rightarrow> All_v row)"
  using assms by (simp add: raceValues_def)

text \<open>
  C6, as the code has it. With the charts generated, \<open>updateYearCharts\<close> for a year that
  has no row in the active burden dataset and none in the income dataset returns normally
  and loads zero for every race into the race chart; the brackets of the race chart show
  the year. Nothing else changes: the income chart is loaded only when the year has an
  income row, so it keeps the series and the year it showed, and the burden stat keeps its
  number. In any year, a race without a matching row gets the value 0.
\<close>

theorem year_without_rows:
  assumes "raceChart s \<noteq> None"
      and "\<forall>f\<in>set (dataset threshold s). YEAR f \<noteq> year"
      and "\<forall>f\<in>set (income s). inc_YEAR f \<noteq> year"
  shows "updateYearCharts year threshold s
           = Inr (s\<lparr>raceChart := Some (race_columns [0, 0, 0, 0, 0]), race_year := Some year\<rparr>)
       \<and> (\<forall>i<length races. \<forall>y ds.
             (\<forall>f\<in>set ds. \<not> (YEAR f = y \<and> TENURE f = ''Renters'' \<and> RACE f = races ! i \<and> AGE f = ''All''))
               \<longrightarrow> raceValues y ds ! i = 0)"
proof -
  have i: "find (\<lambda>f. inc_YEAR f = year) (income s) = None"
    using assms(3) by (simp add: find_None_iff)
  have "updateYearCharts year threshold s
           = Inr (s\<lparr>raceChart := Some (race_columns [0, 0, 0, 0, 0]), race_year := Some year\<rparr>)"
    using assms(1)
    by (simp add: updateYearCharts_def Let_def raceValues_absent [OF assms(2)]
          find_None_year [OF assms(2)] i and_then_def)
  moreover have "raceValues y ds ! i = 0"
    if "i < length races"
      and "\<forall>f\<in>set ds. \<not> (YEAR f = y \<and> TENURE f = ''Renters'' \<and> RACE f = races ! i \<and> AGE f = ''All'')"
    for i y ds
  proof -
    from that(2) have "find (\<lambda>f. YEAR f = y \<and> TENURE f = ''Renters'' \<and> RACE f = races ! i \<and> AGE f = ''All'') ds = None"
      by (simp add: find_None_iff)
    with that(1) show ?thesis by (simp add: raceValues_nth)
  qed
  ultimately show ?thesis by blast
qed

lemma data_loaded_policy0:
  "data_loaded (FeatureCollection []) (FeatureCollection []) (FeatureCollection [income_2022]) policy0
     = Inr (policy0\<lparr>income := [income_2022],
              trendChart := Some [(''x'', []), (''Renters'', [])],
              raceChart := Some (race_columns [0, 0, 0, 0, 0]),
              incomeChart := Some (income_columns [100, 200, 300, 400, 500]),
              race_year := Some 2022, income_year := Some 2022\<rparr>)"
  by (simp add: data_loaded_def features_def initCharts_policy_def policy0_def updateTrendChart_def
        dataset_def updateYearCharts_def raceValues_def races_def and_then_def income_2022_def Let_def)

lemma policy_loaded_eq:
  "policy_loaded = policy0\<lparr>income := [income_2022],
              trendChart := Some [(''x'', []), (''Renters'', [])],
              raceChart := Some (race_columns [0, 0, 0, 0, 0]),
              incomeChart := Some (income_columns [100, 200, 300, 400, 500]),
              race_year := Some 2022, income_year := Some 2022\<rparr>"
  by (simp add: policy_loaded_def panel_load_def data_loaded_policy0)

theorem year_without_rows_witness:
  "raceChart policy_loaded \<noteq> None
   \<and> dataset 50 policy_loaded = []
   \<and> map inc_YEAR (income policy_loaded) = [2022]
   \<and> updateYearCharts 1999 50 policy_loaded
        = Inr (policy_loaded\<lparr>raceChart := Some (race_columns [0, 0, 0, 0, 0]), race_year := Some 1999\<rparr>)"
proof -
  have a: "raceChart policy_loaded \<noteq> None" by (simp add: policy_loaded_eq)
  have b: "\<forall>f\<in>set (dataset 50 policy_loaded). YEAR f \<noteq> 1999"
    by (simp add: policy_loaded_eq dataset_def policy0_def)
  have c: "\<forall>f\<in>set (income policy_loaded). inc_YEAR f \<noteq> 1999"
    by (simp add: policy_loaded_eq income_2022_def)
  have d: "dataset 50 policy_loaded = []"
    by (simp add: policy_loaded_eq dataset_def policy0_def)
  have e: "map inc_YEAR (income policy_loaded) = [2022]"
    by (simp add: policy_loaded_eq income_2022_def)
  from year_without_rows [OF a b c] a d e show ?thesis by blast
qed

text \<open>
  After 2022 was shown with households 100 to 500, the year 1999, which has no row, leaves
  those households in the income chart: they are not replaced by zeros.
\<close>

theorem income_chart_stale_counterexample:
  "map_sum id incomeChart (updateYearCharts 1999 50 policy_loaded)
     = Inr (Some (income_columns [100, 200, 300, 400, 500]))
   \<and> income_columns [100, 200, 300, 400, 500] \<noteq> income_columns [0, 0, 0, 0, 0]"
  by (simp add: policy_loaded_eq updateYearCharts_def dataset_def policy0_def raceValues_def races_def
        income_2022_def and_then_def Let_def income_columns_def)

section \<open>Loading the data\<close>

text \<open>The \<open>then\<close> callback of the burden dashboard does not throw.\<close>

lemma updateTrendChart_charts:
  assumes "trendChart s \<noteq> None"
  shows "\<exists>s'. updateTrendChart t s = Inr s' \<and> raceChart s' = raceChart s
            \<and> incomeChart s' = incomeChart s"
  using assms by (auto simp: updateTrendChart_def Let_def)

lemma updateYearCharts_returns:
  assumes "raceChart s \<noteq> None" and "incomeChart s \<noteq> None"
  shows "\<exists>s'. updateYearCharts y t s = Inr s'"
  using assms
  by (auto simp: updateYearCharts_def Let_def and_then_def split: option.split)

lemma data_loaded_returns: "\<exists>s'. data_loaded b50 b30 inc s = Inr s'"
proof -
  let ?s1 = "initCharts_policy (s\<lparr>burden50 := features b50, burden30 := features b30, income := features inc\<rparr>)"
  have t: "trendChart ?s1 \<noteq> None" and r: "raceChart ?s1 \<noteq> None" and i: "incomeChart ?s1 \<noteq> None"
    by (simp_all add: initCharts_policy_def)
  from updateTrendChart_charts [OF t, of "currentThreshold ?s1"] obtain s2
    where s2: "updateTrendChart (currentThreshold ?s1) ?s1 = Inr s2"
      and "raceChart s2 = raceChart ?s1" and "incomeChart s2 = incomeChart ?s1"
    by blast
  with r i have "raceChart s2 \<noteq> None" and "incomeChart s2 \<noteq> None" by simp_all
  from updateYearCharts_returns [OF this] obtain s3
    where "updateYearCharts (currentYear ?s1) (currentThreshold ?s1) s2 = Inr s3" by blast
  with s2 show ?thesis
    unfolding data_loaded_def Let_def and_then_def by simp
qed

lemma panel_load_failed:
  assumes "isl r50 \<or> isl r30 \<or> isl rinc"
  shows "panel_load r50 r30 rinc p = data_load_error p"
  using assms by (cases r50; cases r30; cases rinc) (simp_all add: panel_load_def)

lemma housing_fetched_ok:
  "housing_fetched (Inr g) s =
     (legend_of ''rent''
        (s\<lparr>sources := (sources s)(''housing'' \<mapsto> g),
            layers := (layers s)(''rent-fill'' \<mapsto> Visible, ''burden-fill'' \<mapsto> Hidden,
                                 ''housing-line'' \<mapsto> Visible, ''housing-hover'' \<mapsto> Visible),
            hover_opacity := 0, events_wired := True,
            barChart := Some bar_placeholder, lineChart := Some line_placeholder,
            donutChart := Some donut_placeholder\<rparr>))
     \<lparr>panel_wired := True, pending := Suc (pending s)\<rparr>"
  by (simp add: housing_fetched_def initPanel_def initCharts_def Let_def
        renderLegend_eq [OF rent_not_inherited] and_then_def legend_of_keeps)

text \<open>
  C2, as the code has it. In the burden dashboard the three fetches are joined by
  \<open>Promise.all\<close>: when one of them fails, nothing is stored, no chart is generated and
  nothing is rendered, and one line goes to the console (the page shows no error). In the
  housing dashboard the two fetches of the map are independent: a fetch that fails writes
  its own console line, and what the other fetch brought is set up all the same. With the
  MHA fetch failed and the housing fetch answered, the housing source and its four layers
  are added, the charts generated, the events and the panel wired and a first
  \<open>updateFromMap\<close> scheduled.
\<close>

theorem load_failures:
  "(isl r50 \<or> isl r30 \<or> isl rinc \<longrightarrow>
      panel_load r50 r30 rinc p = p\<lparr>policy_console := policy_console p @ [''Data load error:'']\<rparr>)
   \<and> (\<exists>s'. map_load first (Inl e) (Inr g) s = s'
         \<and> console s' = console s @ [''MHA load error:'']
         \<and> sources s' = (sources s)(''housing'' \<mapsto> g)
         \<and> layers s' = (layers s)(''rent-fill'' \<mapsto> Visible, ''burden-fill'' \<mapsto> Hidden,
                                   ''housing-line'' \<mapsto> Visible, ''housing-hover'' \<mapsto> Visible)
         \<and> barChart s' = Some bar_placeholder \<and> lineChart s' = Some line_placeholder
         \<and> donutChart s' = Some donut_placeholder
         \<and> events_wired s' \<and> panel_wired s' \<and> pending s' = Suc (pending s))
   \<and> map_load first (Inr g) (Inl e) s
        = s\<lparr>sources := (sources s)(''mha'' \<mapsto> g),
             layers := (layers s)(''mha-fill'' \<mapsto> Hidden, ''mha-line'' \<mapsto> Hidden),
             console := console s @ [''Housing data load error:'']\<rparr>
   \<and> map_load first (Inl e) (Inl e') s
        = s\<lparr>console := console s @ (if first then [''MHA load error:'', ''Housing data load error:'']
                                       else [''Housing data load error:'', ''MHA load error:''])\<rparr>"
proof (intro conjI impI)
  assume "isl r50 \<or> isl r30 \<or> isl rinc"
  then show "panel_load r50 r30 rinc p = p\<lparr>policy_console := policy_console p @ [''Data load error:'']\<rparr>"
    by (simp add: panel_load_failed data_load_error_def)
next
  show "\<exists>s'. map_load first (Inl e) (Inr g) s = s'
         \<and> console s' = console s @ [''MHA load error:'']
         \<and> sources s' = (sources s)(''housing'' \<mapsto> g)
         \<and> layers s' = (layers s)(''rent-fill'' \<mapsto> Visible, ''burden-fill'' \<mapsto> Hidden,
                                   ''housing-line'' \<mapsto> Visible, ''housing-hover'' \<mapsto> Visible)
         \<and> barChart s' = Some bar_placeholder \<and> lineChart s' = Some line_placeholder
         \<and> donutChart s' = Some donut_placeholder
         \<and> events_wired s' \<and> panel_wired s' \<and> pending s' = Suc (pending s)"
    by (cases first)
       (simp_all add: map_load_def mha_fetched_def housing_fetched_ok legend_of_keeps)
next
  show "map_load first (Inr g) (Inl e) s
        = s\<lparr>sources := (sources s)(''mha'' \<mapsto> g),
             layers := (layers s)(''mha-fill'' \<mapsto> Hidden, ''mha-line'' \<mapsto> Hidden),
             console := console s @ [''Housing data load error:'']\<rparr>"
    by (cases first) (simp_all add: map_load_def mha_fetched_def housing_fetched_def)
next
  show "map_load first (Inl e) (Inl e') s
        = s\<lparr>console := console s @ (if first then [''MHA load error:'', ''Housing data load error:'']
                                       else [''Housing data load error:'', ''MHA load error:''])\<rparr>"
    by (cases first) (simp_all add: map_load_def mha_fetched_def housing_fetched_def)
qed

theorem load_failures_witness:
  "isl (Inl NetworkError :: error + burden_row geojson)
   \<and> panel_load (Inl NetworkError) (Inr (FeatureCollection [])) (Inr (FeatureCollection [income_2022])) policy0
       = policy0\<lparr>policy_console := [''Data load error:'']\<rparr>"
  using load_failures [of "Inl NetworkError" "Inr (FeatureCollection [])"
                          "Inr (FeatureCollection [income_2022])" policy0]
  by (simp add: policy0_def)

text \<open>
  The MHA fetch fails and the housing fetch answers: the rent layer is shown, the charts and
  the panel are set up, and the console holds the MHA line.
\<close>

theorem partial_map_load_counterexample:
  "layers (map_load True (Inl NetworkError) (Inr (FeatureCollection [tract ''t1'' ''Ballard'' (Some 1500)])) page0)
     ''rent-fill'' = Some Visible
   \<and> barChart (map_load True (Inl NetworkError) (Inr (FeatureCollection [tract ''t1'' ''Ballard'' (Some 1500)])) page0)
     = Some bar_placeholder
   \<and> panel_wired (map_load True (Inl NetworkError) (Inr (FeatureCollection [tract ''t1'' ''Ballard'' (Some 1500)])) page0)
   \<and> console (map_load True (Inl NetworkError) (Inr (FeatureCollection [tract ''t1'' ''Ballard'' (Some 1500)])) page0)
     = [''MHA load error:'']"
  by (simp add: map_load_def mha_fetched_def housing_fetched_ok legend_of_keeps page0_def)

section \<open>The ranked bar series\<close>



lemma own_groups_snoc:
  "own_groups (data @ [d]) = push_group (or_Unknown (neighborhood d)) (rent d) (own_groups data)"
  by (simp add: own_groups_def)

lemma own_groups_Nil: "own_groups [] = []"
  by (simp add: own_groups_def)

lemma grouped_snoc:
  "grouped (data @ [d]) =
     (case grouped data of
        Inl e \<Rightarrow> Inl e
      | Inr obj \<Rightarrow>
          if or_Unknown (neighborhood d) \<in> set Object_prototype_names then Inl TypeError
          else Inr (push_group (or_Unknown (neighborhood d)) (rent d) obj))"
  by (simp add: grouped_def Let_def split: sum.split)

lemma grouped_own:
  "\<forall>d\<in>set data. or_Unknown (neighborhood d) \<notin> set Object_prototype_names \<Longrightarrow>
     grouped data = Inr (own_groups data)"
proof (induction data rule: rev_induct)
  case Nil
  then show ?case by (simp add: grouped_def own_groups_Nil)
next
  case (snoc d data)
  then show ?case by (simp add: grouped_snoc own_groups_snoc)
qed
















lemma ranked_eq:
  "\<forall>d\<in>set data. or_Unknown (neighborhood d) \<notin> set Object_prototype_names \<Longrightarrow>
     ranked data = Inr (take 8 (sort_key (\<lambda>d. - snd d) (positive_groups data)))"
  by (simp add: ranked_def grouped_own positive_groups_def)








lemma ten_neighborhoods_ok:
  "length rs = 10 \<Longrightarrow>
     \<forall>d\<in>set (ten_neighborhoods rs). or_Unknown (neighborhood d) \<notin> set Object_prototype_names"
  by (auto simp: ten_neighborhoods_def Object_prototype_names_def or_Unknown_def
        in_set_zip nth_Cons' split: if_splits)

lemma positive_groups_rising:
  "positive_groups (ten_neighborhoods [1000, 1100, 1200, 1300, 1400, 1500, 1600, 1700, 1800, 1900])
     = [(''Ballard'', 1000), (''Fremont'', 1100), (''Wallingford'', 1200), (''Capitol Hill'', 1300),
        (''Queen Anne'', 1400), (''Magnolia'', 1500), (''Greenwood'', 1600), (''Ravenna'', 1700),
        (''Beacon Hill'', 1800), (''Georgetown'', 1900)]"
  by (simp add: positive_groups_def ten_neighborhoods_def own_groups_def or_Unknown_def
        Object_entries_def not_index_letter digit_value_def averaged_def
        reduce_add_def js_add_def js_div_def fl_numeral Math_round_def)


lemma ranked_rising:
  "ranked (ten_neighborhoods [1000, 1100, 1200, 1300, 1400, 1500, 1600, 1700, 1800, 1900])
     = Inr [(''Georgetown'', 1900), (''Beacon Hill'', 1800), (''Ravenna'', 1700), (''Greenwood'', 1600),
        (''Magnolia'', 1500), (''Queen Anne'', 1400), (''Capitol Hill'', 1300), (''Wallingford'', 1200)]"
proof -
  have "ranked (ten_neighborhoods [1000, 1100, 1200, 1300, 1400, 1500, 1600, 1700, 1800, 1900])
          = Inr (take 8 (sort_key (\<lambda>d. - snd d)
                  (positive_groups (ten_neighborhoods
                     [1000, 1100, 1200, 1300, 1400, 1500, 1600, 1700, 1800, 1900]))))"
    by (rule ranked_eq, rule ten_neighborhoods_ok) simp
  then show ?thesis by (simp add: positive_groups_rising)
qed


end
